theory Spec2Isabelle
  imports Main
begin

section \<open>The throttle hook (hooks/useThrottle)\<close>

text \<open>
  JavaScript numbers that the hook sees are the integer millisecond readings of
  \<^verbatim>\<open>Date.now()\<close> and the delay; both are modelled as \<open>int\<close>.

  A JavaScript function always returns a value, and a function without a
  \<^verbatim>\<open>return\<close> returns \<^verbatim>\<open>undefined\<close>. The throttled function has the return
  type \<^verbatim>\<open>R | undefined\<close>, an untagged union: \<open>Undefined\<close> below is that one value,
  whether it comes from the wrapped callback or from the hook's own fall-through.
\<close>

datatype 'r returned = Undefined | Returned 'r

text \<open>The default parameter \<^verbatim>\<open>delay: number = 1000\<close>.\<close>

definition delayOrDefault :: "int option \<Rightarrow> int" where
  "delayOrDefault delay = (case delay of None \<Rightarrow> 1000 | Some d \<Rightarrow> d)"

text \<open>
  \<^verbatim>\<open>lastCallRef\<close> is private to the hook; the callback works on a state \<open>'s\<close> of
  its own. One invocation of the memoized function with \<^verbatim>\<open>Date.now() = now\<close>:
\<close>

definition useThrottle ::
  "('a \<Rightarrow> 's \<Rightarrow> 'r returned \<times> 's) \<Rightarrow> int option \<Rightarrow> 'a \<Rightarrow> int \<Rightarrow> int \<times> 's
    \<Rightarrow> 'r returned \<times> int \<times> 's" where
  "useThrottle callback delay args now ls =
     (case ls of (lastCall, s) \<Rightarrow>
        if now - lastCall \<ge> delayOrDefault delay
        then (case callback args s of (r, s') \<Rightarrow> (r, now, s'))
        else (Undefined, lastCall, s))"

text \<open>\<^verbatim>\<open>useRef(0)\<close>: the value of \<^verbatim>\<open>lastCallRef\<close> before the first invocation.\<close>

definition lastCallInit :: int where
  "lastCallInit = 0"

text \<open>
  A sequence of invocation attempts. The wrapped callback counts its own runs, so
  an attempt was forwarded exactly when the counter moved.
\<close>

definition countingCallback :: "unit \<Rightarrow> nat \<Rightarrow> unit returned \<times> nat" where
  "countingCallback args n = (Returned (), Suc n)"

fun attempts :: "int option \<Rightarrow> int \<Rightarrow> int list \<Rightarrow> bool list" where
  "attempts delay lastCall [] = []"
| "attempts delay lastCall (now # ts) =
     (case useThrottle countingCallback delay () now (lastCall, 0) of
        (r, lastCall', n) \<Rightarrow> (n = Suc 0) # attempts delay lastCall' ts)"

text \<open>
  The timestamp of the last forwarded attempt before attempt \<open>i\<close>, read off the
  timestamps \<open>ts\<close> and the forwarded flags \<open>fs\<close>; \<open>init\<close> when none was forwarded.
\<close>

definition lastForwarded :: "int \<Rightarrow> int list \<Rightarrow> bool list \<Rightarrow> nat \<Rightarrow> int" where
  "lastForwarded init ts fs i = last (init # map fst (filter snd (zip (take i ts) fs)))"

section \<open>The list component (components/BidirectionalList)\<close>

text \<open>\<^verbatim>\<open>type Action = 'head' | 'tail'\<close>\<close>

datatype action = Head | Tail

text \<open>
  The four properties of the viewport element that the component reads or writes,
  as integers (the source adds and subtracts them, nothing else). An assignment to
  \<^verbatim>\<open>scrollLeft\<close> or \<^verbatim>\<open>scrollTop\<close> stores the assigned number; what a browser does
  to an out-of-range offset is not part of the source.
\<close>

record viewport =
  scrollWidth :: int
  scrollHeight :: int
  scrollLeft :: int
  scrollTop :: int

text \<open>
  The props the controller's logic reads. The direction is a string at run time.
  \<open>onHead\<close> and \<open>onTail\<close> say whether the optional callback was supplied; what a
  supplied callback does is outside the component, so its invocations are
  recorded in \<open>calls\<close>.
\<close>

record props =
  direction :: string
  hasMoreAtHead :: bool
  hasMoreAtTail :: bool
  throttleDelay :: "int option"
  disableLog :: bool
  onHead :: bool
  onTail :: bool

datatype diagnostic = Warn string string | Error

datatype call = OnHead | OnTail

datatype assignment = ScrollLeft int | ScrollTop int

text \<open>
  Everything the component keeps between renders: the memoized direction, the
  viewport ref, the \<open>action\<close> state, the four scroll refs, the \<^verbatim>\<open>lastCallRef\<close> of
  each of the two throttle hooks, and three traces of what it did to the outside:
  console output, callback invocations and assignments to the viewport.
\<close>

record state =
  props :: props
  directionMemo :: string
  viewportRef :: "viewport option"
  action :: "action option"
  scrollWidthRef :: int
  scrollHeightRef :: int
  scrollLeftRef :: int
  scrollTopRef :: int
  headLastCall :: int
  tailLastCall :: int
  console :: "diagnostic list"
  calls :: "call list"
  writes :: "assignment list"

text \<open>\<^verbatim>\<open>String.prototype.includes\<close>\<close>

fun startsWith :: "string \<Rightarrow> string \<Rightarrow> bool" where
  "startsWith s [] = True"
| "startsWith [] (c # p) = False"
| "startsWith (x # s) (c # p) = (x = c \<and> startsWith s p)"

fun includesStr :: "string \<Rightarrow> string \<Rightarrow> bool" where
  "includesStr [] p = (p = [])"
| "includesStr (x # s) p = (startsWith (x # s) p \<or> includesStr s p)"

definition isColumn :: "state \<Rightarrow> bool" where
  "isColumn s = includesStr (directionMemo s) ''column''"

text \<open>
  The first commit: \<^verbatim>\<open>useMemo(() => direction, [])\<close> fixes the direction, the ref
  of the viewport element is attached, every \<^verbatim>\<open>useRef(0)\<close> holds 0 and no action is
  pending. The warning effect runs with \<^verbatim>\<open>direction === directionMemo\<close>.
\<close>

definition mount :: "props \<Rightarrow> viewport \<Rightarrow> state" where
  "mount p vp =
     \<lparr> props = p, directionMemo = direction p, viewportRef = Some vp, action = None,
       scrollWidthRef = 0, scrollHeightRef = 0, scrollLeftRef = 0, scrollTopRef = 0,
       headLastCall = lastCallInit, tailLastCall = lastCallInit,
       console = [], calls = [], writes = [] \<rparr>"

text \<open>
  A later render with props \<open>p\<close>. The warning effect has the dependencies
  \<^verbatim>\<open>[direction, directionMemo, disableLog]\<close>, so it runs again only when one of them
  differs from the previous render.
\<close>

definition rerender :: "props \<Rightarrow> state \<Rightarrow> state" where
  "rerender p s =
     (if (direction p \<noteq> direction (props s) \<or> disableLog p \<noteq> disableLog (props s))
         \<and> direction p \<noteq> directionMemo s \<and> \<not> disableLog p
      then s\<lparr>props := p, console := console s @ [Warn (direction p) (directionMemo s)]\<rparr>
      else s\<lparr>props := p\<rparr>)"

definition saveScrollStates :: "action \<Rightarrow> state \<Rightarrow> state" where
  "saveScrollStates pending s =
     (case viewportRef s of
        None \<Rightarrow> s
      | Some vp \<Rightarrow>
          (if isColumn s
           then s\<lparr>scrollHeightRef := scrollHeight vp, scrollTopRef := scrollTop vp,
                  action := Some pending\<rparr>
           else s\<lparr>scrollWidthRef := scrollWidth vp, scrollLeftRef := scrollLeft vp,
                  action := Some pending\<rparr>))"

text \<open>The two assignments to the viewport element.\<close>

definition setScrollLeft :: "int \<Rightarrow> viewport \<Rightarrow> state \<Rightarrow> state" where
  "setScrollLeft v vp s =
     s\<lparr>viewportRef := Some (vp\<lparr>scrollLeft := v\<rparr>), writes := writes s @ [ScrollLeft v]\<rparr>"

definition setScrollTop :: "int \<Rightarrow> viewport \<Rightarrow> state \<Rightarrow> state" where
  "setScrollTop v vp s =
     s\<lparr>viewportRef := Some (vp\<lparr>scrollTop := v\<rparr>), writes := writes s @ [ScrollTop v]\<rparr>"

text \<open>
  The body of the layout effect that runs when \<^verbatim>\<open>children\<close> changed: the
  settlement of a content mutation.
\<close>

definition settle :: "state \<Rightarrow> state" where
  "settle s =
     (case viewportRef s of
        None \<Rightarrow> s
      | Some vp \<Rightarrow>
          (case action s of
             None \<Rightarrow> s
           | Some a \<Rightarrow>
               (let isHead = (a = Head);
                    diff = (if isColumn s then scrollHeight vp - scrollHeightRef s
                            else scrollWidth vp - scrollWidthRef s);
                    s' =
                      (if directionMemo s = ''row'' then
                         (if isHead then setScrollLeft (scrollLeftRef s + diff) vp s
                          else setScrollLeft (scrollLeftRef s) vp s)
                       else if directionMemo s = ''row-reverse'' then
                         (if isHead then setScrollLeft (scrollLeftRef s) vp s
                          else setScrollLeft (scrollLeftRef s + diff) vp s)
                       else if directionMemo s = ''column'' then
                         (if isHead then setScrollTop (scrollTopRef s + diff) vp s
                          else setScrollTop (scrollTopRef s) vp s)
                       else if directionMemo s = ''column-reverse'' then
                         (if isHead then setScrollTop (scrollTopRef s) vp s
                          else setScrollTop (scrollTopRef s + diff) vp s)
                       else if \<not> disableLog (props s) then s\<lparr>console := console s @ [Error]\<rparr>
                       else s)
                in s'\<lparr>action := None\<rparr>)))"

text \<open>The callbacks handed to the two throttle hooks.\<close>

definition headCallback :: "unit \<Rightarrow> state \<Rightarrow> unit returned \<times> state" where
  "headCallback args s =
     (if \<not> hasMoreAtHead (props s) then (Undefined, s)
      else (let s1 = saveScrollStates Head s;
                s2 = (if onHead (props s) then s1\<lparr>calls := calls s1 @ [OnHead]\<rparr> else s1)
            in (Undefined, s2)))"

definition tailCallback :: "unit \<Rightarrow> state \<Rightarrow> unit returned \<times> state" where
  "tailCallback args s =
     (if \<not> hasMoreAtTail (props s) then (Undefined, s)
      else (let s1 = saveScrollStates Tail s;
                s2 = (if onTail (props s) then s1\<lparr>calls := calls s1 @ [OnTail]\<rparr> else s1)
            in (Undefined, s2)))"

definition onHeadThrottled :: "int \<Rightarrow> state \<Rightarrow> unit returned \<times> state" where
  "onHeadThrottled now s =
     (case useThrottle headCallback (throttleDelay (props s)) () now (headLastCall s, s) of
        (r, lastCall, s') \<Rightarrow> (r, s'\<lparr>headLastCall := lastCall\<rparr>))"

definition onTailThrottled :: "int \<Rightarrow> state \<Rightarrow> unit returned \<times> state" where
  "onTailThrottled now s =
     (case useThrottle tailCallback (throttleDelay (props s)) () now (tailLastCall s, s) of
        (r, lastCall, s') \<Rightarrow> (r, s'\<lparr>tailLastCall := lastCall\<rparr>))"

text \<open>An edge-fire on either sentinel, as the throttled handler of that edge.\<close>

definition edgeFire :: "action \<Rightarrow> int \<Rightarrow> state \<Rightarrow> unit returned \<times> state" where
  "edgeFire e now s = (case e of Head \<Rightarrow> onHeadThrottled now s | Tail \<Rightarrow> onTailThrottled now s)"

text \<open>
  What can happen to a mounted list: a sentinel intersects the viewport at some
  clock reading, the parent renders it with new props, the browser changes the
  viewport's metrics (scrolling, layout of new content), or the children changed
  and the layout effect runs. Nothing in the source detaches the viewport ref.
\<close>

datatype event = Intersect action int | Render props | Metrics viewport | ChildrenChanged

definition step :: "event \<Rightarrow> state \<Rightarrow> state" where
  "step ev s =
     (case ev of
        Intersect e now \<Rightarrow> snd (edgeFire e now s)
      | Render p \<Rightarrow> rerender p s
      | Metrics vp \<Rightarrow> (case viewportRef s of None \<Rightarrow> s | Some _ \<Rightarrow> s\<lparr>viewportRef := Some vp\<rparr>)
      | ChildrenChanged \<Rightarrow> settle s)"

fun run :: "event list \<Rightarrow> state \<Rightarrow> state" where
  "run [] s = s"
| "run (ev # evs) s = run evs (step ev s)"

text \<open>
  An edge-fire qualifies in a state when it passes that edge's throttle gate and
  the edge's flag is true.
\<close>

definition passesGate :: "action \<Rightarrow> int \<Rightarrow> state \<Rightarrow> bool" where
  "passesGate e now s =
     (now - (case e of Head \<Rightarrow> headLastCall s | Tail \<Rightarrow> tailLastCall s)
        \<ge> delayOrDefault (throttleDelay (props s)))"

definition hasMore :: "action \<Rightarrow> state \<Rightarrow> bool" where
  "hasMore e s = (case e of Head \<Rightarrow> hasMoreAtHead (props s) | Tail \<Rightarrow> hasMoreAtTail (props s))"

definition qualifies :: "event \<Rightarrow> state \<Rightarrow> bool" where
  "qualifies ev s =
     (case ev of Intersect e now \<Rightarrow> passesGate e now s \<and> hasMore e s | _ \<Rightarrow> False)"

fun quiet :: "event list \<Rightarrow> state \<Rightarrow> bool" where
  "quiet [] s = True"
| "quiet (ev # evs) s = (\<not> qualifies ev s \<and> quiet evs (step ev s))"

text \<open>
  The same state seen under another \<open>direction\<close> prop: used to say that an
  operation does not read the prop.
\<close>

definition withDirection :: "string \<Rightarrow> state \<Rightarrow> state" where
  "withDirection d s = s\<lparr>props := (props s)\<lparr>direction := d\<rparr>\<rparr>"

text \<open>
  Whether every drift of the \<open>direction\<close> prop has been reported in a state:
  the current prop is the memoized direction, or logging is disabled, or the
  console holds the warning for that pair.
\<close>

definition driftWarned :: "state \<Rightarrow> bool" where
  "driftWarned s =
     (direction (props s) = directionMemo s \<or> disableLog (props s)
      \<or> Warn (direction (props s)) (directionMemo s) \<in> set (console s))"

text \<open>
  A concrete list for the worked examples: a row list whose viewport has scroll
  extent 1000 and offset 200, with both callbacks supplied and the default delay.
\<close>

definition exampleProps :: props where
  "exampleProps =
     \<lparr> direction = ''row'', hasMoreAtHead = True, hasMoreAtTail = True,
       throttleDelay = None, disableLog = False, onHead = True, onTail = True \<rparr>"

definition exampleViewport :: viewport where
  "exampleViewport =
     \<lparr> scrollWidth = 1000, scrollHeight = 300, scrollLeft = 200, scrollTop = 40 \<rparr>"

definition exampleList :: "string \<Rightarrow> state" where
  "exampleList d = mount (exampleProps\<lparr>direction := d\<rparr>) exampleViewport"

section \<open>Basic facts\<close>

lemma isColumn_row: "directionMemo s = ''row'' \<Longrightarrow> \<not> isColumn s"
  by (simp add: isColumn_def)

lemma isColumn_row_reverse: "directionMemo s = ''row-reverse'' \<Longrightarrow> \<not> isColumn s"
  by (simp add: isColumn_def)

lemma isColumn_column: "directionMemo s = ''column'' \<Longrightarrow> isColumn s"
  by (simp add: isColumn_def)

lemma isColumn_column_reverse: "directionMemo s = ''column-reverse'' \<Longrightarrow> isColumn s"
  by (simp add: isColumn_def)

lemma isColumn_upd [simp]:
  "isColumn (s\<lparr>viewportRef := v\<rparr>) = isColumn s"
  "isColumn (s\<lparr>action := a\<rparr>) = isColumn s"
  "isColumn (s\<lparr>props := p\<rparr>) = isColumn s"
  "isColumn (s\<lparr>calls := c\<rparr>) = isColumn s"
  "isColumn (s\<lparr>headLastCall := n\<rparr>) = isColumn s"
  "isColumn (s\<lparr>tailLastCall := n\<rparr>) = isColumn s"
  by (simp_all add: isColumn_def)

lemma settle_no_action: "action s = None \<Longrightarrow> settle s = s"
  by (simp add: settle_def split: option.splits)

lemma settle_no_viewport: "viewportRef s = None \<Longrightarrow> settle s = s"
  by (simp add: settle_def)

text \<open>The throttled handlers, with the hook unfolded.\<close>

lemma onHeadThrottled_eq:
  "onHeadThrottled now s =
     (if now - headLastCall s \<ge> delayOrDefault (throttleDelay (props s))
      then (Undefined, (snd (headCallback () s))\<lparr>headLastCall := now\<rparr>)
      else (Undefined, s))"
  by (simp add: onHeadThrottled_def useThrottle_def headCallback_def Let_def)

lemma onTailThrottled_eq:
  "onTailThrottled now s =
     (if now - tailLastCall s \<ge> delayOrDefault (throttleDelay (props s))
      then (Undefined, (snd (tailCallback () s))\<lparr>tailLastCall := now\<rparr>)
      else (Undefined, s))"
  by (simp add: onTailThrottled_def useThrottle_def tailCallback_def Let_def)

lemmas edgeFire_unfold =
  edgeFire_def onHeadThrottled_eq onTailThrottled_eq headCallback_def tailCallback_def
  passesGate_def hasMore_def

lemmas example_defs =
  exampleList_def exampleProps_def exampleViewport_def mount_def lastCallInit_def
  delayOrDefault_def

section \<open>Anchor correction\<close>

lemma edgeFire_qualifying:
  assumes "viewportRef s = Some vp" and "passesGate e now s" and "hasMore e s"
  shows "snd (edgeFire e now s) =
           (case e of
              Head \<Rightarrow> (let s1 = saveScrollStates Head s
                        in (if onHead (props s) then s1\<lparr>calls := calls s1 @ [OnHead]\<rparr> else s1)
                             \<lparr>headLastCall := now\<rparr>)
            | Tail \<Rightarrow> (let s1 = saveScrollStates Tail s
                        in (if onTail (props s) then s1\<lparr>calls := calls s1 @ [OnTail]\<rparr> else s1)
                             \<lparr>tailLastCall := now\<rparr>))"
  using assms by (cases e) (simp_all add: edgeFire_unfold Let_def)

lemma settle_after_fire_row:
  assumes "viewportRef s = Some vp0" and "passesGate e now s" and "hasMore e s"
    and "directionMemo s = ''row''"
  shows "settle ((snd (edgeFire e now s))\<lparr>viewportRef := Some vp1\<rparr>) =
           (snd (edgeFire e now s))
             \<lparr>viewportRef :=
                Some (vp1\<lparr>scrollLeft := scrollLeft vp0
                              + (if e = Head then scrollWidth vp1 - scrollWidth vp0 else 0)\<rparr>),
              writes := writes s @
                [ScrollLeft (scrollLeft vp0
                              + (if e = Head then scrollWidth vp1 - scrollWidth vp0 else 0))],
              action := None\<rparr>"
  using assms
  by (cases e)
     (simp_all add: edgeFire_qualifying settle_def saveScrollStates_def isColumn_row
        setScrollLeft_def Let_def)

lemma settle_after_fire_row_reverse:
  assumes "viewportRef s = Some vp0" and "passesGate e now s" and "hasMore e s"
    and "directionMemo s = ''row-reverse''"
  shows "settle ((snd (edgeFire e now s))\<lparr>viewportRef := Some vp1\<rparr>) =
           (snd (edgeFire e now s))
             \<lparr>viewportRef :=
                Some (vp1\<lparr>scrollLeft := scrollLeft vp0
                              + (if e = Head then 0 else scrollWidth vp1 - scrollWidth vp0)\<rparr>),
              writes := writes s @
                [ScrollLeft (scrollLeft vp0
                              + (if e = Head then 0 else scrollWidth vp1 - scrollWidth vp0))],
              action := None\<rparr>"
  using assms
  by (cases e)
     (simp_all add: edgeFire_qualifying settle_def saveScrollStates_def isColumn_row_reverse
        setScrollLeft_def Let_def)

lemma settle_after_fire_column:
  assumes "viewportRef s = Some vp0" and "passesGate e now s" and "hasMore e s"
    and "directionMemo s = ''column''"
  shows "settle ((snd (edgeFire e now s))\<lparr>viewportRef := Some vp1\<rparr>) =
           (snd (edgeFire e now s))
             \<lparr>viewportRef :=
                Some (vp1\<lparr>scrollTop := scrollTop vp0
                              + (if e = Head then scrollHeight vp1 - scrollHeight vp0 else 0)\<rparr>),
              writes := writes s @
                [ScrollTop (scrollTop vp0
                              + (if e = Head then scrollHeight vp1 - scrollHeight vp0 else 0))],
              action := None\<rparr>"
  using assms
  by (cases e)
     (simp_all add: edgeFire_qualifying settle_def saveScrollStates_def isColumn_column
        setScrollTop_def Let_def)

lemma settle_after_fire_column_reverse:
  assumes "viewportRef s = Some vp0" and "passesGate e now s" and "hasMore e s"
    and "directionMemo s = ''column-reverse''"
  shows "settle ((snd (edgeFire e now s))\<lparr>viewportRef := Some vp1\<rparr>) =
           (snd (edgeFire e now s))
             \<lparr>viewportRef :=
                Some (vp1\<lparr>scrollTop := scrollTop vp0
                              + (if e = Head then 0 else scrollHeight vp1 - scrollHeight vp0)\<rparr>),
              writes := writes s @
                [ScrollTop (scrollTop vp0
                              + (if e = Head then 0 else scrollHeight vp1 - scrollHeight vp0))],
              action := None\<rparr>"
  using assms
  by (cases e)
     (simp_all add: edgeFire_qualifying settle_def saveScrollStates_def isColumn_column_reverse
        setScrollTop_def Let_def)

text \<open>
  C1. An edge-fire on edge \<open>e\<close> that passes the gate with its flag true happens with
  the viewport at metrics \<open>vp0\<close>; the content then changes and the viewport is at
  \<open>vp1\<close> when the layout effect runs. With \<open>delta\<close> the growth of the main-axis
  extent between the two: a row list is left at offset \<open>scrollLeft vp0 + delta\<close> for
  a pending head and at \<open>scrollLeft vp0\<close> for a pending tail; a row-reverse list the
  other way round; a column and a column-reverse list likewise on \<open>scrollTop\<close> and
  \<open>scrollHeight\<close>. That offset is the one assignment made to the viewport, the other
  axis is not touched.
\<close>

theorem correction_sign_law:
  assumes "viewportRef s = Some vp0" and "passesGate e now s" and "hasMore e s"
  shows
    "(directionMemo s = ''row'' \<longrightarrow>
        viewportRef (settle ((snd (edgeFire e now s))\<lparr>viewportRef := Some vp1\<rparr>)) =
          Some (vp1\<lparr>scrollLeft := scrollLeft vp0
                        + (if e = Head then scrollWidth vp1 - scrollWidth vp0 else 0)\<rparr>)
        \<and> writes (settle ((snd (edgeFire e now s))\<lparr>viewportRef := Some vp1\<rparr>)) =
            writes s @ [ScrollLeft (scrollLeft vp0
                        + (if e = Head then scrollWidth vp1 - scrollWidth vp0 else 0))])
     \<and> (directionMemo s = ''row-reverse'' \<longrightarrow>
        viewportRef (settle ((snd (edgeFire e now s))\<lparr>viewportRef := Some vp1\<rparr>)) =
          Some (vp1\<lparr>scrollLeft := scrollLeft vp0
                        + (if e = Head then 0 else scrollWidth vp1 - scrollWidth vp0)\<rparr>)
        \<and> writes (settle ((snd (edgeFire e now s))\<lparr>viewportRef := Some vp1\<rparr>)) =
            writes s @ [ScrollLeft (scrollLeft vp0
                        + (if e = Head then 0 else scrollWidth vp1 - scrollWidth vp0))])
     \<and> (directionMemo s = ''column'' \<longrightarrow>
        viewportRef (settle ((snd (edgeFire e now s))\<lparr>viewportRef := Some vp1\<rparr>)) =
          Some (vp1\<lparr>scrollTop := scrollTop vp0
                        + (if e = Head then scrollHeight vp1 - scrollHeight vp0 else 0)\<rparr>)
        \<and> writes (settle ((snd (edgeFire e now s))\<lparr>viewportRef := Some vp1\<rparr>)) =
            writes s @ [ScrollTop (scrollTop vp0
                        + (if e = Head then scrollHeight vp1 - scrollHeight vp0 else 0))])
     \<and> (directionMemo s = ''column-reverse'' \<longrightarrow>
        viewportRef (settle ((snd (edgeFire e now s))\<lparr>viewportRef := Some vp1\<rparr>)) =
          Some (vp1\<lparr>scrollTop := scrollTop vp0
                        + (if e = Head then 0 else scrollHeight vp1 - scrollHeight vp0)\<rparr>)
        \<and> writes (settle ((snd (edgeFire e now s))\<lparr>viewportRef := Some vp1\<rparr>)) =
            writes s @ [ScrollTop (scrollTop vp0
                        + (if e = Head then 0 else scrollHeight vp1 - scrollHeight vp0))])"
proof (intro conjI impI)
  assume d: "directionMemo s = ''row''"
  note eq = settle_after_fire_row [OF assms d, of vp1]
  show "viewportRef (settle ((snd (edgeFire e now s))\<lparr>viewportRef := Some vp1\<rparr>)) =
          Some (vp1\<lparr>scrollLeft := scrollLeft vp0
                        + (if e = Head then scrollWidth vp1 - scrollWidth vp0 else 0)\<rparr>)"
    unfolding eq by simp
  show "writes (settle ((snd (edgeFire e now s))\<lparr>viewportRef := Some vp1\<rparr>)) =
            writes s @ [ScrollLeft (scrollLeft vp0
                        + (if e = Head then scrollWidth vp1 - scrollWidth vp0 else 0))]"
    unfolding eq by simp
next
  assume d: "directionMemo s = ''row-reverse''"
  note eq = settle_after_fire_row_reverse [OF assms d, of vp1]
  show "viewportRef (settle ((snd (edgeFire e now s))\<lparr>viewportRef := Some vp1\<rparr>)) =
          Some (vp1\<lparr>scrollLeft := scrollLeft vp0
                        + (if e = Head then 0 else scrollWidth vp1 - scrollWidth vp0)\<rparr>)"
    unfolding eq by simp
  show "writes (settle ((snd (edgeFire e now s))\<lparr>viewportRef := Some vp1\<rparr>)) =
            writes s @ [ScrollLeft (scrollLeft vp0
                        + (if e = Head then 0 else scrollWidth vp1 - scrollWidth vp0))]"
    unfolding eq by simp
next
  assume d: "directionMemo s = ''column''"
  note eq = settle_after_fire_column [OF assms d, of vp1]
  show "viewportRef (settle ((snd (edgeFire e now s))\<lparr>viewportRef := Some vp1\<rparr>)) =
          Some (vp1\<lparr>scrollTop := scrollTop vp0
                        + (if e = Head then scrollHeight vp1 - scrollHeight vp0 else 0)\<rparr>)"
    unfolding eq by simp
  show "writes (settle ((snd (edgeFire e now s))\<lparr>viewportRef := Some vp1\<rparr>)) =
            writes s @ [ScrollTop (scrollTop vp0
                        + (if e = Head then scrollHeight vp1 - scrollHeight vp0 else 0))]"
    unfolding eq by simp
next
  assume d: "directionMemo s = ''column-reverse''"
  note eq = settle_after_fire_column_reverse [OF assms d, of vp1]
  show "viewportRef (settle ((snd (edgeFire e now s))\<lparr>viewportRef := Some vp1\<rparr>)) =
          Some (vp1\<lparr>scrollTop := scrollTop vp0
                        + (if e = Head then 0 else scrollHeight vp1 - scrollHeight vp0)\<rparr>)"
    unfolding eq by simp
  show "writes (settle ((snd (edgeFire e now s))\<lparr>viewportRef := Some vp1\<rparr>)) =
            writes s @ [ScrollTop (scrollTop vp0
                        + (if e = Head then 0 else scrollHeight vp1 - scrollHeight vp0))]"
    unfolding eq by simp
qed


theorem correction_sign_law_witness:
  "viewportRef (exampleList ''row'') = Some exampleViewport
   \<and> passesGate Head 1762000000000 (exampleList ''row'')
   \<and> hasMore Head (exampleList ''row'')
   \<and> writes (settle ((snd (edgeFire Head 1762000000000 (exampleList ''row'')))
          \<lparr>viewportRef := Some (exampleViewport\<lparr>scrollWidth := 1400\<rparr>)\<rparr>)) = [ScrollLeft 600]
   \<and> writes (settle ((snd (edgeFire Tail 1762000000000 (exampleList ''row-reverse'')))
          \<lparr>viewportRef := Some (exampleViewport\<lparr>scrollWidth := 1400\<rparr>)\<rparr>)) = [ScrollLeft 600]
   \<and> writes (settle ((snd (edgeFire Tail 1762000000000 (exampleList ''column'')))
          \<lparr>viewportRef := Some (exampleViewport\<lparr>scrollHeight := 350\<rparr>)\<rparr>)) = [ScrollTop 40]
   \<and> writes (settle ((snd (edgeFire Tail 1762000000000 (exampleList ''column-reverse'')))
          \<lparr>viewportRef := Some (exampleViewport\<lparr>scrollHeight := 350\<rparr>)\<rparr>)) = [ScrollTop 90]"
proof -
  have h1: "viewportRef (exampleList ''row'') = Some exampleViewport
      \<and> passesGate Head 1762000000000 (exampleList ''row'')
      \<and> hasMore Head (exampleList ''row'')
      \<and> directionMemo (exampleList ''row'') = ''row''
      \<and> writes (exampleList ''row'') = []"
    by (simp add: example_defs passesGate_def hasMore_def)
  then have r1: "writes (settle ((snd (edgeFire Head 1762000000000 (exampleList ''row'')))
          \<lparr>viewportRef := Some (exampleViewport\<lparr>scrollWidth := 1400\<rparr>)\<rparr>)) = [ScrollLeft 600]"
    using correction_sign_law [of "exampleList ''row''" exampleViewport Head 1762000000000
        "exampleViewport\<lparr>scrollWidth := 1400\<rparr>"]
    by (simp add: exampleViewport_def)
  have h2: "viewportRef (exampleList ''row-reverse'') = Some exampleViewport
      \<and> passesGate Tail 1762000000000 (exampleList ''row-reverse'')
      \<and> hasMore Tail (exampleList ''row-reverse'')
      \<and> directionMemo (exampleList ''row-reverse'') = ''row-reverse''
      \<and> writes (exampleList ''row-reverse'') = []"
    by (simp add: example_defs passesGate_def hasMore_def)
  then have r2: "writes (settle ((snd (edgeFire Tail 1762000000000 (exampleList ''row-reverse'')))
          \<lparr>viewportRef := Some (exampleViewport\<lparr>scrollWidth := 1400\<rparr>)\<rparr>)) = [ScrollLeft 600]"
    using correction_sign_law [of "exampleList ''row-reverse''" exampleViewport Tail 1762000000000
        "exampleViewport\<lparr>scrollWidth := 1400\<rparr>"]
    by (simp add: exampleViewport_def)
  have h3: "viewportRef (exampleList ''column'') = Some exampleViewport
      \<and> passesGate Tail 1762000000000 (exampleList ''column'')
      \<and> hasMore Tail (exampleList ''column'')
      \<and> directionMemo (exampleList ''column'') = ''column''
      \<and> writes (exampleList ''column'') = []"
    by (simp add: example_defs passesGate_def hasMore_def)
  then have r3: "writes (settle ((snd (edgeFire Tail 1762000000000 (exampleList ''column'')))
          \<lparr>viewportRef := Some (exampleViewport\<lparr>scrollHeight := 350\<rparr>)\<rparr>)) = [ScrollTop 40]"
    using correction_sign_law [of "exampleList ''column''" exampleViewport Tail 1762000000000
        "exampleViewport\<lparr>scrollHeight := 350\<rparr>"]
    by (simp add: exampleViewport_def)
  have h4: "viewportRef (exampleList ''column-reverse'') = Some exampleViewport
      \<and> passesGate Tail 1762000000000 (exampleList ''column-reverse'')
      \<and> hasMore Tail (exampleList ''column-reverse'')
      \<and> directionMemo (exampleList ''column-reverse'') = ''column-reverse''
      \<and> writes (exampleList ''column-reverse'') = []"
    by (simp add: example_defs passesGate_def hasMore_def)
  then have r4: "writes (settle ((snd (edgeFire Tail 1762000000000 (exampleList ''column-reverse'')))
          \<lparr>viewportRef := Some (exampleViewport\<lparr>scrollHeight := 350\<rparr>)\<rparr>)) = [ScrollTop 90]"
    using correction_sign_law [of "exampleList ''column-reverse''" exampleViewport Tail 1762000000000
        "exampleViewport\<lparr>scrollHeight := 350\<rparr>"]
    by (simp add: exampleViewport_def)
  show ?thesis
    using h1 r1 r2 r3 r4 by simp
qed

text \<open>
  C3. When no action is pending the layout effect returns at once: the whole
  state, and with it the viewport and the trace of assignments to it, is what it
  was. A settlement with a pending action on a list of one of the four directions
  always makes one assignment to the viewport, also when the extent did not change,
  so the two are told apart by the trace.
\<close>

theorem settle_without_pending_is_noop:
  "(action s = None \<longrightarrow> settle s = s)
   \<and> (action t = Some a \<and> viewportRef t = Some vp
        \<and> directionMemo t \<in> {''row'', ''row-reverse'', ''column'', ''column-reverse''}
      \<longrightarrow> length (writes (settle t)) = Suc (length (writes t)))"
proof (intro conjI impI)
  assume "action s = None"
  then show "settle s = s" by (rule settle_no_action)
next
  assume "action t = Some a \<and> viewportRef t = Some vp
        \<and> directionMemo t \<in> {''row'', ''row-reverse'', ''column'', ''column-reverse''}"
  then show "length (writes (settle t)) = Suc (length (writes t))"
    by (auto simp: settle_def setScrollLeft_def setScrollTop_def Let_def)
qed

theorem settle_without_pending_is_noop_witness:
  "action (exampleList ''row'') = None
   \<and> settle (exampleList ''row'') = exampleList ''row''
   \<and> action (saveScrollStates Head (exampleList ''row'')) = Some Head
   \<and> viewportRef (saveScrollStates Head (exampleList ''row'')) = Some exampleViewport
   \<and> directionMemo (saveScrollStates Head (exampleList ''row''))
        \<in> {''row'', ''row-reverse'', ''column'', ''column-reverse''}
   \<and> length (writes (settle (saveScrollStates Head (exampleList ''row'')))) = Suc 0"
proof -
  have h: "action (exampleList ''row'') = None
      \<and> action (saveScrollStates Head (exampleList ''row'')) = Some Head
      \<and> viewportRef (saveScrollStates Head (exampleList ''row'')) = Some exampleViewport
      \<and> directionMemo (saveScrollStates Head (exampleList ''row'')) = ''row''
      \<and> writes (saveScrollStates Head (exampleList ''row'')) = []"
    by (simp add: example_defs saveScrollStates_def isColumn_def)
  then show ?thesis
    using settle_without_pending_is_noop [of "exampleList ''row''"
        "saveScrollStates Head (exampleList ''row'')" Head exampleViewport]
    by simp
qed

section \<open>Edge fires\<close>

text \<open>
  C5. An edge-fire that passes its throttle gate while the flag of its edge is
  false returns at the flag check: apart from the gate's own timestamp the state
  is unchanged, so no action is pending that was not, the four scroll refs hold
  what they held, no callback was invoked and the viewport was not touched.
\<close>

theorem flag_false_edge_fire:
  assumes "passesGate e now s" and "\<not> hasMore e s"
  shows "edgeFire e now s =
           (Undefined,
            case e of Head \<Rightarrow> s\<lparr>headLastCall := now\<rparr> | Tail \<Rightarrow> s\<lparr>tailLastCall := now\<rparr>)"
  using assms by (cases e) (simp_all add: edgeFire_unfold)

theorem flag_false_edge_fire_witness:
  "passesGate Head 1762000000000 (rerender (exampleProps\<lparr>hasMoreAtHead := False\<rparr>) (exampleList ''row''))
   \<and> \<not> hasMore Head (rerender (exampleProps\<lparr>hasMoreAtHead := False\<rparr>) (exampleList ''row''))
   \<and> edgeFire Head 1762000000000
        (rerender (exampleProps\<lparr>hasMoreAtHead := False\<rparr>) (exampleList ''row'')) =
       (Undefined,
        (rerender (exampleProps\<lparr>hasMoreAtHead := False\<rparr>) (exampleList ''row''))
          \<lparr>headLastCall := 1762000000000\<rparr>)"
proof -
  have h: "passesGate Head 1762000000000
             (rerender (exampleProps\<lparr>hasMoreAtHead := False\<rparr>) (exampleList ''row''))
      \<and> \<not> hasMore Head (rerender (exampleProps\<lparr>hasMoreAtHead := False\<rparr>) (exampleList ''row''))"
    by (simp add: example_defs passesGate_def hasMore_def rerender_def)
  then show ?thesis
    using flag_false_edge_fire [of Head 1762000000000
        "rerender (exampleProps\<lparr>hasMoreAtHead := False\<rparr>) (exampleList ''row'')"]
    by simp
qed

text \<open>
  C10. The gate stores the time of a forwarded edge-fire before the handler looks
  at the flag. So after a fire at \<open>now1\<close> that passed the gate with the flag false
  (no action entered, no callback invoked), a fire on the same edge at \<open>now2\<close> less
  than the delay later is suppressed and changes nothing, whatever the props have
  become in between.
\<close>

theorem flag_false_fire_consumes_window:
  assumes "passesGate e now1 s" and "\<not> hasMore e s"
    and "now2 - now1 < delayOrDefault (throttleDelay p)"
  shows "(case e of Head \<Rightarrow> headLastCall (snd (edgeFire e now1 s))
                  | Tail \<Rightarrow> tailLastCall (snd (edgeFire e now1 s))) = now1
         \<and> action (snd (edgeFire e now1 s)) = action s
         \<and> calls (snd (edgeFire e now1 s)) = calls s
         \<and> edgeFire e now2 ((snd (edgeFire e now1 s))\<lparr>props := p\<rparr>)
             = (Undefined, (snd (edgeFire e now1 s))\<lparr>props := p\<rparr>)"
  using assms by (cases e) (simp_all add: edgeFire_unfold)

theorem flag_false_fire_consumes_window_witness:
  "passesGate Tail 1762000000000 (rerender (exampleProps\<lparr>hasMoreAtTail := False\<rparr>) (exampleList ''row''))
   \<and> \<not> hasMore Tail (rerender (exampleProps\<lparr>hasMoreAtTail := False\<rparr>) (exampleList ''row''))
   \<and> 1762000000400 - 1762000000000 < delayOrDefault (throttleDelay exampleProps)
   \<and> calls (snd (edgeFire Tail 1762000000400
        ((snd (edgeFire Tail 1762000000000
            (rerender (exampleProps\<lparr>hasMoreAtTail := False\<rparr>) (exampleList ''row''))))
           \<lparr>props := exampleProps\<rparr>))) = []"
proof -
  have h: "passesGate Tail 1762000000000
             (rerender (exampleProps\<lparr>hasMoreAtTail := False\<rparr>) (exampleList ''row''))
      \<and> \<not> hasMore Tail (rerender (exampleProps\<lparr>hasMoreAtTail := False\<rparr>) (exampleList ''row''))
      \<and> 1762000000400 - 1762000000000 < delayOrDefault (throttleDelay exampleProps)
      \<and> calls (rerender (exampleProps\<lparr>hasMoreAtTail := False\<rparr>) (exampleList ''row'')) = []"
    by (simp add: example_defs passesGate_def hasMore_def rerender_def)
  then show ?thesis
    using flag_false_fire_consumes_window [of Tail 1762000000000
        "rerender (exampleProps\<lparr>hasMoreAtTail := False\<rparr>) (exampleList ''row'')"
        1762000000400 exampleProps]
    by simp
qed

section \<open>Diagnostics\<close>

text \<open>
  C9. When the layout effect runs with an action pending and the memoized
  direction is none of row, row-reverse, column and column-reverse, it writes one
  error to the console unless \<open>disableLog\<close> is set, assigns nothing to the viewport
  and clears the action. The effect is a total function of the state: no branch of
  it throws.
\<close>

theorem unhandled_direction:
  assumes "viewportRef s = Some vp" and "action s = Some a"
    and "directionMemo s \<notin> {''row'', ''row-reverse'', ''column'', ''column-reverse''}"
  shows "settle s =
           (if disableLog (props s) then s\<lparr>action := None\<rparr>
            else s\<lparr>console := console s @ [Error], action := None\<rparr>)"
  using assms by (simp add: settle_def Let_def)

theorem unhandled_direction_witness:
  "viewportRef (saveScrollStates Head (exampleList ''columns'')) = Some exampleViewport
   \<and> action (saveScrollStates Head (exampleList ''columns'')) = Some Head
   \<and> directionMemo (saveScrollStates Head (exampleList ''columns''))
        \<notin> {''row'', ''row-reverse'', ''column'', ''column-reverse''}
   \<and> console (settle (saveScrollStates Head (exampleList ''columns''))) = [Error]
   \<and> writes (settle (saveScrollStates Head (exampleList ''columns''))) = []
   \<and> action (settle (saveScrollStates Head (exampleList ''columns''))) = None"
proof -
  have h: "viewportRef (saveScrollStates Head (exampleList ''columns'')) = Some exampleViewport
      \<and> action (saveScrollStates Head (exampleList ''columns'')) = Some Head
      \<and> directionMemo (saveScrollStates Head (exampleList ''columns'')) = ''columns''
      \<and> \<not> disableLog (props (saveScrollStates Head (exampleList ''columns'')))
      \<and> console (saveScrollStates Head (exampleList ''columns'')) = []
      \<and> writes (saveScrollStates Head (exampleList ''columns'')) = []"
    by (simp add: example_defs saveScrollStates_def isColumn_def)
  then show ?thesis
    using unhandled_direction [of "saveScrollStates Head (exampleList ''columns'')"
        exampleViewport Head]
    by simp
qed

section \<open>The throttle gate on a sequence of attempts\<close>

lemma attempts_Cons:
  "attempts delay lastCall (now # ts) =
     (now - lastCall \<ge> delayOrDefault delay)
       # attempts delay (if now - lastCall \<ge> delayOrDefault delay then now else lastCall) ts"
  by (simp add: useThrottle_def countingCallback_def)

lemma lastForwarded_0: "lastForwarded init ts fs 0 = init"
  by (simp add: lastForwarded_def)

lemma lastForwarded_Suc:
  "lastForwarded init (t # ts) (f # fs) (Suc i) = lastForwarded (if f then t else init) ts fs i"
  by (simp add: lastForwarded_def)

lemma attempts_nth:
  "i < length ts \<Longrightarrow>
   attempts delay lastCall ts ! i =
     (ts ! i - lastForwarded lastCall ts (attempts delay lastCall ts) i \<ge> delayOrDefault delay)"
proof (induction ts arbitrary: lastCall i)
  case Nil
  then show ?case by simp
next
  case (Cons now ts)
  show ?case
  proof (cases i)
    case 0
    then show ?thesis
      by (simp add: attempts_Cons lastForwarded_0 del: attempts.simps(2))
  next
    case (Suc k)
    with Cons.prems have k: "k < length ts" by simp
    show ?thesis
      using Cons.IH [OF k] Suc
      by (simp add: attempts_Cons lastForwarded_Suc del: attempts.simps(2))
  qed
qed

text \<open>
  C2, as the source has it. The gate starts with \<^verbatim>\<open>lastCallRef\<close> at 0, not with
  "never called": attempt \<open>i\<close> of any sequence is forwarded exactly when its
  timestamp minus the timestamp of the last forwarded attempt before it, or minus
  0 when none was forwarded yet, is at least the delay. The first attempt is
  therefore forwarded exactly when its timestamp is at least the delay.
\<close>

theorem throttle_gate_forwarding:
  assumes "i < length ts"
  shows "attempts d lastCallInit ts ! i =
           (ts ! i - lastForwarded 0 ts (attempts d lastCallInit ts) i \<ge> delayOrDefault d)
         \<and> attempts d lastCallInit ts ! 0 = (ts ! 0 \<ge> delayOrDefault d)"
proof
  show "attempts d lastCallInit ts ! i =
           (ts ! i - lastForwarded 0 ts (attempts d lastCallInit ts) i \<ge> delayOrDefault d)"
    using attempts_nth [OF assms, of d lastCallInit] by (simp add: lastCallInit_def)
  from assms have "0 < length ts" by (cases ts) simp_all
  from attempts_nth [OF this, of d lastCallInit]
  show "attempts d lastCallInit ts ! 0 = (ts ! 0 \<ge> delayOrDefault d)"
    by (simp add: lastForwarded_0 lastCallInit_def)
qed

theorem throttle_gate_forwarding_witness:
  "(2::nat) < length [1762000000000, 1762000000400, 1762000001000 :: int]
   \<and> attempts (Some 1000) lastCallInit [1762000000000, 1762000000400, 1762000001000] ! 2
   \<and> lastForwarded 0 [1762000000000, 1762000000400, 1762000001000]
        (attempts (Some 1000) lastCallInit [1762000000000, 1762000000400, 1762000001000]) 2
       = 1762000000000
   \<and> attempts (Some 1000) lastCallInit [1762000000000, 1762000000400, 1762000001000] ! 0"
proof -
  have h: "(2::nat) < length [1762000000000, 1762000000400, 1762000001000 :: int]"
    by simp
  have l: "lastForwarded 0 [1762000000000, 1762000000400, 1762000001000]
        (attempts (Some 1000) lastCallInit [1762000000000, 1762000000400, 1762000001000]) 2
       = 1762000000000"
    by (simp add: attempts_Cons lastCallInit_def delayOrDefault_def lastForwarded_def
          del: attempts.simps(2))
  show ?thesis
    using h l throttle_gate_forwarding [OF h, of "Some 1000"]
    by (simp add: delayOrDefault_def)
qed

text \<open>
  The first attempt is not always forwarded: with a delay of 2000000000000 ms a
  first attempt at clock reading 1762000000000 is suppressed.
\<close>

theorem first_attempt_not_forwarded:
  "\<not> attempts (Some 2000000000000) lastCallInit [1762000000000, 1762000000001] ! 0"
  by (simp add: attempts_Cons lastCallInit_def delayOrDefault_def del: attempts.simps(2))

text \<open>
  C7, as the source has it. A suppressed attempt (at \<open>now1\<close>) runs nothing and
  returns \<^verbatim>\<open>undefined\<close>; a forwarded attempt (at \<open>now2\<close>) returns what the callback
  returned. The two results are equal exactly when the callback returned
  \<^verbatim>\<open>undefined\<close>, so a caller can tell them apart only for a callback that returns
  something else.
\<close>

theorem suppressed_attempt_result:
  assumes "now1 - lastCall < delayOrDefault delay"
    and "delayOrDefault delay \<le> now2 - lastCall"
  shows "useThrottle callback delay args now1 (lastCall, s) = (Undefined, lastCall, s)
         \<and> fst (useThrottle callback delay args now2 (lastCall, s)) = fst (callback args s)
         \<and> (fst (useThrottle callback delay args now1 (lastCall, s))
              = fst (useThrottle callback delay args now2 (lastCall, s))
            \<longleftrightarrow> fst (callback args s) = Undefined)"
  using assms by (auto simp: useThrottle_def split: prod.splits)

theorem suppressed_attempt_result_witness:
  "1762000000400 - 1762000000000 < delayOrDefault None
   \<and> delayOrDefault None \<le> 1762000001000 - 1762000000000
   \<and> useThrottle countingCallback None () 1762000000400 (1762000000000, 1)
       = (Undefined, 1762000000000, 1)
   \<and> fst (useThrottle countingCallback None () 1762000001000 (1762000000000, 1)) = Returned ()"
proof -
  have h1: "1762000000400 - 1762000000000 < delayOrDefault None"
    by (simp add: delayOrDefault_def)
  have h2: "delayOrDefault None \<le> 1762000001000 - 1762000000000"
    by (simp add: delayOrDefault_def)
  show ?thesis
    using h1 h2 suppressed_attempt_result [OF h1 h2, of countingCallback "()" "1::nat"]
    by (simp add: countingCallback_def)
qed

text \<open>
  The list's own head handler returns nothing. Its first fire is forwarded (the
  callback \<open>onHead\<close> is invoked), a second fire 400 ms later is suppressed (nothing
  changes), and the throttled function returns the same \<^verbatim>\<open>undefined\<close> both times.
\<close>

theorem suppressed_result_not_distinct:
  "onHeadThrottled 1762000000000 (exampleList ''row'')
     = (Undefined,
        (saveScrollStates Head (exampleList ''row''))
          \<lparr>calls := [OnHead], headLastCall := 1762000000000\<rparr>)
   \<and> onHeadThrottled 1762000000400 (snd (onHeadThrottled 1762000000000 (exampleList ''row'')))
     = (Undefined, snd (onHeadThrottled 1762000000000 (exampleList ''row'')))"
  by (simp add: onHeadThrottled_eq headCallback_def example_defs saveScrollStates_def
        isColumn_def Let_def)

section \<open>The pending action over the life of a mounted list\<close>

lemma viewportRef_saveScrollStates [simp]:
  "viewportRef (saveScrollStates e s) = viewportRef s"
  by (simp add: saveScrollStates_def split: option.splits)

lemma viewportRef_edgeFire [simp]: "viewportRef (snd (edgeFire e now s)) = viewportRef s"
  by (cases e) (simp_all add: edgeFire_unfold Let_def)

lemma viewportRef_settle: "viewportRef s \<noteq> None \<Longrightarrow> viewportRef (settle s) \<noteq> None"
  by (auto simp: settle_def setScrollLeft_def setScrollTop_def Let_def split: option.splits)

lemma viewportRef_step: "viewportRef s \<noteq> None \<Longrightarrow> viewportRef (step ev s) \<noteq> None"
  by (cases ev) (auto simp: step_def rerender_def viewportRef_settle split: option.splits)

lemma viewportRef_run: "viewportRef s \<noteq> None \<Longrightarrow> viewportRef (run evs s) \<noteq> None"
proof (induction evs arbitrary: s)
  case Nil
  then show ?case by simp
next
  case (Cons ev evs)
  from Cons.prems have "viewportRef (step ev s) \<noteq> None"
    by (rule viewportRef_step)
  then have "viewportRef (run evs (step ev s)) \<noteq> None"
    by (rule Cons.IH)
  then show ?case by simp
qed

lemma viewportRef_mounted: "viewportRef (run evs (mount p vp)) \<noteq> None"
  by (rule viewportRef_run) (simp add: mount_def)

lemma action_settle: "viewportRef s \<noteq> None \<Longrightarrow> action (settle s) = None"
  by (auto simp: settle_def Let_def split: option.splits)

lemma action_edgeFire_not_qualifying:
  "\<not> (passesGate e now s \<and> hasMore e s) \<Longrightarrow> action (snd (edgeFire e now s)) = action s"
  by (cases e) (auto simp: edgeFire_unfold)

lemma action_edgeFire_qualifying:
  "passesGate e now s \<Longrightarrow> hasMore e s \<Longrightarrow> viewportRef s \<noteq> None \<Longrightarrow>
   action (snd (edgeFire e now s)) = Some e"
  by (cases e) (auto simp: edgeFire_unfold saveScrollStates_def Let_def)

lemma action_step_idle:
  "action s = None \<Longrightarrow> \<not> qualifies ev s \<Longrightarrow> action (step ev s) = None"
  by (cases ev)
     (auto simp: step_def qualifies_def rerender_def settle_no_action
        action_edgeFire_not_qualifying split: option.splits)

lemma action_run_quiet: "action s = None \<Longrightarrow> quiet evs s \<Longrightarrow> action (run evs s) = None"
  by (induction evs arbitrary: s) (simp_all add: action_step_idle)

text \<open>
  C4. The pending action is one optional value, so at most one is held. Take any
  state a mounted list can be in (any events \<open>evs0\<close> after the first commit) and let
  the layout effect run: afterwards no action is pending. It stays so through any
  further events \<open>evs\<close> none of which is an edge-fire that passes its gate with its
  flag true, and the first such edge-fire on edge \<open>e\<close> makes \<open>e\<close> pending.
\<close>

theorem pending_cleared_until_qualifying_fire:
  "action (settle (run evs0 (mount p vp))) = None
   \<and> (quiet evs (settle (run evs0 (mount p vp)))
        \<longrightarrow> action (run evs (settle (run evs0 (mount p vp)))) = None)
   \<and> (qualifies (Intersect e now) (run evs (settle (run evs0 (mount p vp))))
        \<longrightarrow> action (step (Intersect e now) (run evs (settle (run evs0 (mount p vp))))) = Some e)"
proof (intro conjI impI)
  let ?s = "settle (run evs0 (mount p vp))"
  show idle: "action ?s = None"
    by (rule action_settle) (rule viewportRef_mounted)
  show "action (run evs ?s) = None" if "quiet evs ?s"
    using idle that by (rule action_run_quiet)
  have vp: "viewportRef (run evs ?s) \<noteq> None"
    by (intro viewportRef_run viewportRef_settle viewportRef_mounted)
  show "action (step (Intersect e now) (run evs ?s)) = Some e"
    if "qualifies (Intersect e now) (run evs ?s)"
    using that vp by (simp add: step_def qualifies_def action_edgeFire_qualifying)
qed

lemma example_pending:
  "run [Intersect Head 1762000000000, Metrics (exampleViewport\<lparr>scrollWidth := 1400\<rparr>)]
       (mount exampleProps exampleViewport) =
     (mount exampleProps exampleViewport)
       \<lparr>viewportRef := Some (exampleViewport\<lparr>scrollWidth := 1400\<rparr>), action := Some Head,
        scrollWidthRef := 1000, scrollLeftRef := 200, headLastCall := 1762000000000,
        calls := [OnHead]\<rparr>"
  by (simp add: step_def edgeFire_unfold saveScrollStates_def isColumn_def Let_def
        example_defs)

lemma example_settled:
  "settle (run [Intersect Head 1762000000000, Metrics (exampleViewport\<lparr>scrollWidth := 1400\<rparr>)]
       (mount exampleProps exampleViewport)) =
     (mount exampleProps exampleViewport)
       \<lparr>viewportRef := Some (exampleViewport\<lparr>scrollWidth := 1400, scrollLeft := 600\<rparr>),
        action := None,
        scrollWidthRef := 1000, scrollLeftRef := 200, headLastCall := 1762000000000,
        calls := [OnHead], writes := [ScrollLeft 600]\<rparr>"
  unfolding example_pending
  by (simp add: settle_def setScrollLeft_def isColumn_def Let_def example_defs)

theorem pending_cleared_until_qualifying_fire_witness:
  "quiet [Intersect Head 1762000000400, Render (exampleProps\<lparr>hasMoreAtTail := False\<rparr>),
          Intersect Tail 1762000000500, ChildrenChanged, Render exampleProps]
     (settle (run [Intersect Head 1762000000000,
                   Metrics (exampleViewport\<lparr>scrollWidth := 1400\<rparr>)]
                (mount exampleProps exampleViewport)))
   \<and> action (run [Intersect Head 1762000000400,
                   Render (exampleProps\<lparr>hasMoreAtTail := False\<rparr>),
                   Intersect Tail 1762000000500, ChildrenChanged, Render exampleProps]
        (settle (run [Intersect Head 1762000000000,
                      Metrics (exampleViewport\<lparr>scrollWidth := 1400\<rparr>)]
                   (mount exampleProps exampleViewport)))) = None
   \<and> qualifies (Intersect Head 1762000001000)
        (run [Intersect Head 1762000000400,
              Render (exampleProps\<lparr>hasMoreAtTail := False\<rparr>),
              Intersect Tail 1762000000500, ChildrenChanged, Render exampleProps]
           (settle (run [Intersect Head 1762000000000,
                         Metrics (exampleViewport\<lparr>scrollWidth := 1400\<rparr>)]
                      (mount exampleProps exampleViewport))))
   \<and> action (step (Intersect Head 1762000001000)
        (run [Intersect Head 1762000000400,
              Render (exampleProps\<lparr>hasMoreAtTail := False\<rparr>),
              Intersect Tail 1762000000500, ChildrenChanged, Render exampleProps]
           (settle (run [Intersect Head 1762000000000,
                         Metrics (exampleViewport\<lparr>scrollWidth := 1400\<rparr>)]
                      (mount exampleProps exampleViewport))))) = Some Head"
proof -
  let ?s = "settle (run [Intersect Head 1762000000000,
                         Metrics (exampleViewport\<lparr>scrollWidth := 1400\<rparr>)]
                      (mount exampleProps exampleViewport))"
  let ?evs = "[Intersect Head 1762000000400,
               Render (exampleProps\<lparr>hasMoreAtTail := False\<rparr>),
               Intersect Tail 1762000000500, ChildrenChanged, Render exampleProps]"
  have q: "quiet ?evs ?s"
    unfolding example_settled
    by (simp add: step_def qualifies_def edgeFire_unfold rerender_def settle_def
          example_defs)
  have f: "qualifies (Intersect Head 1762000001000) (run ?evs ?s)"
    unfolding example_settled
    by (simp add: step_def qualifies_def edgeFire_unfold rerender_def settle_def
          example_defs)
  show ?thesis
    using q f pending_cleared_until_qualifying_fire
      [of "[Intersect Head 1762000000000, Metrics (exampleViewport\<lparr>scrollWidth := 1400\<rparr>)]"
          exampleProps exampleViewport ?evs Head 1762000001000]
    by blast
qed

section \<open>The memoized direction\<close>

lemma directionMemo_saveScrollStates [simp]:
  "directionMemo (saveScrollStates e s) = directionMemo s"
  by (simp add: saveScrollStates_def split: option.splits)

lemma directionMemo_settle [simp]: "directionMemo (settle s) = directionMemo s"
  by (simp add: settle_def setScrollLeft_def setScrollTop_def Let_def split: option.splits)

lemma directionMemo_edgeFire [simp]: "directionMemo (snd (edgeFire e now s)) = directionMemo s"
  by (cases e) (simp_all add: edgeFire_unfold Let_def)

lemma directionMemo_step [simp]: "directionMemo (step ev s) = directionMemo s"
  by (cases ev) (simp_all add: step_def rerender_def split: option.splits)

lemma directionMemo_run [simp]: "directionMemo (run evs s) = directionMemo s"
  by (induction evs arbitrary: s) simp_all

lemma settle_withDirection: "settle (withDirection d s) = withDirection d (settle s)"
  by (simp add: withDirection_def settle_def setScrollLeft_def setScrollTop_def Let_def
        split: option.splits)

lemma saveScrollStates_withDirection:
  "saveScrollStates e (withDirection d s) = withDirection d (saveScrollStates e s)"
  by (simp add: withDirection_def saveScrollStates_def split: option.splits)

lemma edgeFire_withDirection:
  "edgeFire e now (withDirection d s) =
     (fst (edgeFire e now s), withDirection d (snd (edgeFire e now s)))"
  by (cases e)
     (simp_all add: edgeFire_unfold Let_def withDirection_def saveScrollStates_def
        split: option.splits)

lemma props_settle [simp]: "props (settle s) = props s"
  by (simp add: settle_def setScrollLeft_def setScrollTop_def Let_def split: option.splits)

lemma console_settle: "set (console s) \<subseteq> set (console (settle s))"
  by (auto simp: settle_def setScrollLeft_def setScrollTop_def Let_def split: option.splits)

lemma props_edgeFire [simp]: "props (snd (edgeFire e now s)) = props s"
  by (cases e) (simp_all add: edgeFire_unfold saveScrollStates_def Let_def split: option.splits)

lemma console_edgeFire [simp]: "console (snd (edgeFire e now s)) = console s"
  by (cases e) (simp_all add: edgeFire_unfold saveScrollStates_def Let_def split: option.splits)

lemma driftWarned_step: "driftWarned s \<Longrightarrow> driftWarned (step ev s)"
proof (cases ev)
  case (Intersect e now)
  assume "driftWarned s"
  with Intersect show ?thesis by (simp add: driftWarned_def step_def)
next
  case (Render p)
  assume "driftWarned s"
  with Render show ?thesis by (auto simp: driftWarned_def step_def rerender_def)
next
  case (Metrics vp)
  assume "driftWarned s"
  with Metrics show ?thesis by (simp add: driftWarned_def step_def split: option.splits)
next
  case ChildrenChanged
  assume "driftWarned s"
  with ChildrenChanged console_settle [of s] show ?thesis
    by (auto simp: driftWarned_def step_def)
qed

lemma driftWarned_run: "driftWarned s \<Longrightarrow> driftWarned (run evs s)"
  by (induction evs arbitrary: s) (simp_all add: driftWarned_step)

lemma driftWarned_mounted: "driftWarned (run evs (mount p vp))"
  by (rule driftWarned_run) (simp add: driftWarned_def mount_def)

text \<open>
  C6. The memoized direction of a mounted list is the direction of the props it
  was constructed with, whatever happened since, and whenever the current
  \<open>direction\<close> prop differs from it and \<open>disableLog\<close> is not set, the warning naming
  both is on the console. It is written by the render that brings the new
  direction: such a render appends that one warning, or nothing when \<open>disableLog\<close>
  is set, and the memoized direction stays what it was through that render and all
  later events. The layout effect, the recording of the scroll state and the
  edge-fire handlers do not read the \<open>direction\<close> prop: run on the same state under
  another value of the prop they do the same thing.
\<close>

theorem direction_fixed_at_construction:
  assumes "direction p \<noteq> directionMemo s" and "direction p \<noteq> direction (props s)"
  shows "directionMemo (run evs (mount p0 vp)) = direction p0
     \<and> (direction (props (run evs (mount p0 vp))) \<noteq> direction p0
          \<and> \<not> disableLog (props (run evs (mount p0 vp)))
        \<longrightarrow> Warn (direction (props (run evs (mount p0 vp)))) (direction p0)
              \<in> set (console (run evs (mount p0 vp))))
     \<and> console (rerender p s) =
         console s @ (if disableLog p then [] else [Warn (direction p) (directionMemo s)])
     \<and> directionMemo (run evs' (rerender p s)) = directionMemo s
     \<and> settle (withDirection d t) = withDirection d (settle t)
     \<and> saveScrollStates e (withDirection d t) = withDirection d (saveScrollStates e t)
     \<and> edgeFire e now (withDirection d t)
         = (fst (edgeFire e now t), withDirection d (snd (edgeFire e now t)))"
proof -
  have memo: "directionMemo (run evs (mount p0 vp)) = direction p0"
    by (simp add: mount_def)
  have warned: "direction (props (run evs (mount p0 vp))) \<noteq> direction p0
          \<and> \<not> disableLog (props (run evs (mount p0 vp)))
        \<longrightarrow> Warn (direction (props (run evs (mount p0 vp)))) (direction p0)
              \<in> set (console (run evs (mount p0 vp)))"
    using driftWarned_mounted [of evs p0 vp] memo by (auto simp: driftWarned_def)
  have warn: "console (rerender p s) =
         console s @ (if disableLog p then [] else [Warn (direction p) (directionMemo s)])"
    using assms by (simp add: rerender_def)
  have later: "directionMemo (run evs' (rerender p s)) = directionMemo s"
    by (simp add: rerender_def)
  show ?thesis
    using memo warned warn later
    by (simp only: settle_withDirection saveScrollStates_withDirection edgeFire_withDirection
          simp_thms)
qed

theorem direction_fixed_at_construction_witness:
  "direction (exampleProps\<lparr>direction := ''column''\<rparr>) \<noteq> directionMemo (exampleList ''row'')
   \<and> direction (exampleProps\<lparr>direction := ''column''\<rparr>) \<noteq> direction (props (exampleList ''row''))
   \<and> console (rerender (exampleProps\<lparr>direction := ''column''\<rparr>) (exampleList ''row''))
       = [Warn ''column'' ''row'']
   \<and> directionMemo
        (run [Intersect Head 1762000000000, ChildrenChanged]
           (rerender (exampleProps\<lparr>direction := ''column''\<rparr>) (exampleList ''row''))) = ''row''
   \<and> direction (props (run [Render (exampleProps\<lparr>direction := ''column''\<rparr>), ChildrenChanged]
        (mount exampleProps exampleViewport))) \<noteq> direction exampleProps
   \<and> \<not> disableLog (props (run [Render (exampleProps\<lparr>direction := ''column''\<rparr>), ChildrenChanged]
        (mount exampleProps exampleViewport)))
   \<and> Warn ''column'' ''row''
       \<in> set (console (run [Render (exampleProps\<lparr>direction := ''column''\<rparr>), ChildrenChanged]
                         (mount exampleProps exampleViewport)))"
proof -
  have h: "direction (exampleProps\<lparr>direction := ''column''\<rparr>) \<noteq> directionMemo (exampleList ''row'')
      \<and> direction (exampleProps\<lparr>direction := ''column''\<rparr>)
          \<noteq> direction (props (exampleList ''row''))
      \<and> \<not> disableLog (exampleProps\<lparr>direction := ''column''\<rparr>)
      \<and> console (exampleList ''row'') = []
      \<and> directionMemo (exampleList ''row'') = ''row''"
    by (simp add: example_defs)
  have g: "props (run [Render (exampleProps\<lparr>direction := ''column''\<rparr>), ChildrenChanged]
              (mount exampleProps exampleViewport)) = exampleProps\<lparr>direction := ''column''\<rparr>"
    by (simp add: step_def rerender_def)
  have k: "direction (exampleProps\<lparr>direction := ''column''\<rparr>) = ''column''
      \<and> direction exampleProps = ''row''
      \<and> \<not> disableLog (exampleProps\<lparr>direction := ''column''\<rparr>)"
    by (simp add: exampleProps_def)
  show ?thesis
    using h k direction_fixed_at_construction
      [of "exampleProps\<lparr>direction := ''column''\<rparr>" "exampleList ''row''"
          "[Render (exampleProps\<lparr>direction := ''column''\<rparr>), ChildrenChanged]" exampleProps
          exampleViewport "[Intersect Head 1762000000000, ChildrenChanged]"]
    unfolding g by simp
qed

section \<open>A list whose viewport ref is empty\<close>

text \<open>
  C8, as the source has it. With the viewport ref empty the layout effect and the
  recording of the scroll state do nothing at all. An edge-fire goes through the
  throttle gate as usual; when it passes, the gate's timestamp is updated and,
  with the edge's flag true and the callback supplied, \<open>onHead\<close> or \<open>onTail\<close> is
  invoked. Nothing else changes: no action becomes pending, no scroll ref and no
  console output is written, the viewport is not assigned to.
\<close>

theorem detached_viewport_ignored:
  assumes "viewportRef s = None"
  shows "settle s = s
     \<and> saveScrollStates e s = s
     \<and> snd (onHeadThrottled now s) =
         (if passesGate Head now s
          then s\<lparr>calls := calls s @ (if hasMoreAtHead (props s) \<and> onHead (props s)
                                      then [OnHead] else []),
                 headLastCall := now\<rparr>
          else s)
     \<and> snd (onTailThrottled now s) =
         (if passesGate Tail now s
          then s\<lparr>calls := calls s @ (if hasMoreAtTail (props s) \<and> onTail (props s)
                                      then [OnTail] else []),
                 tailLastCall := now\<rparr>
          else s)"
  using assms
  by (simp add: settle_no_viewport saveScrollStates_def onHeadThrottled_eq
        onTailThrottled_eq headCallback_def tailCallback_def passesGate_def Let_def)

theorem detached_viewport_ignored_witness:
  "viewportRef ((exampleList ''row'')\<lparr>viewportRef := None, action := Some Tail\<rparr>) = None
   \<and> settle ((exampleList ''row'')\<lparr>viewportRef := None, action := Some Tail\<rparr>)
       = (exampleList ''row'')\<lparr>viewportRef := None, action := Some Tail\<rparr>
   \<and> action (snd (onHeadThrottled 1762000000000
        ((exampleList ''row'')\<lparr>viewportRef := None, action := Some Tail\<rparr>))) = Some Tail"
proof -
  have h: "viewportRef ((exampleList ''row'')\<lparr>viewportRef := None, action := Some Tail\<rparr>) = None"
    by simp
  show ?thesis
    using h detached_viewport_ignored
      [OF h, of Head 1762000000000]
    by (simp add: passesGate_def)
qed

text \<open>
  The callback is still invoked: on the example list with its viewport ref
  emptied, a head fire calls \<open>onHead\<close>.
\<close>

theorem detached_viewport_callback_invoked:
  "viewportRef ((exampleList ''row'')\<lparr>viewportRef := None\<rparr>) = None
   \<and> calls ((exampleList ''row'')\<lparr>viewportRef := None\<rparr>) = []
   \<and> calls (snd (edgeFire Head 1762000000000 ((exampleList ''row'')\<lparr>viewportRef := None\<rparr>)))
       = [OnHead]"
  by (simp add: edgeFire_unfold saveScrollStates_def example_defs Let_def)

end
